theory Spec2Isabelle
  imports Complex_Main
begin

section \<open>Values of the service: decoded JSON as Python sees it\<close>

text \<open>
  The service in \<^verbatim>\<open>backend/agent-python/agent.py\<close> handles decoded JSON throughout:
  request bodies, the configuration, the records of the conversation log and the answers
  of the backend. A decoded value is \<open>None\<close>, a bool, an int, a float, a str, a list or a
  dict with string keys. A dict is kept as an association list in insertion order; a
  lookup takes the first binding of a key. A float is the rational number it denotes
  (the non-finite floats are left out).
\<close>

datatype json =
    JNull
  | JBool bool
  | JInt int
  | JFloat rat
  | JString string
  | JArray "json list"
  | JObject "(string \<times> json) list"

text \<open>Python's truth value of a decoded value, as \<^verbatim>\<open>not x\<close> tests it.\<close>

fun truthy :: "json \<Rightarrow> bool" where
  "truthy JNull = False"
| "truthy (JBool b) = b"
| "truthy (JInt i) = (i \<noteq> 0)"
| "truthy (JFloat r) = (r \<noteq> 0)"
| "truthy (JString s) = (s \<noteq> [])"
| "truthy (JArray xs) = (xs \<noteq> [])"
| "truthy (JObject kvs) = (kvs \<noteq> [])"

text \<open>\<^verbatim>\<open>d.get(k)\<close> and \<^verbatim>\<open>d.get(k, default)\<close> on a dict: the default (\<open>None\<close>) for an absent key.\<close>

definition dict_get_default :: "(string \<times> json) list \<Rightarrow> string \<Rightarrow> json \<Rightarrow> json" where
  "dict_get_default kvs k d = (case map_of kvs k of None \<Rightarrow> d | Some v \<Rightarrow> v)"

definition dict_get :: "(string \<times> json) list \<Rightarrow> string \<Rightarrow> json" where
  "dict_get kvs k = dict_get_default kvs k JNull"

text \<open>The exceptions that the code can raise; those with a text carry it (\<^verbatim>\<open>str(e)\<close>).\<close>

datatype exn =
    AttributeError string
  | TypeError
  | JSONDecodeError
  | ConfigDecodeError
  | RedisUrlError

text \<open>The name of a value's Python type, as it appears in the text of an AttributeError.\<close>

fun type_name :: "json \<Rightarrow> string" where
  "type_name JNull = ''NoneType''"
| "type_name (JBool b) = ''bool''"
| "type_name (JInt i) = ''int''"
| "type_name (JFloat r) = ''float''"
| "type_name (JString s) = ''str''"
| "type_name (JArray xs) = ''list''"
| "type_name (JObject kvs) = ''dict''"

definition no_attribute_get :: "json \<Rightarrow> string" where
  "no_attribute_get v = [CHR 0x27] @ type_name v @ [CHR 0x27] @ '' object has no attribute '' @ [CHR 0x27] @ ''get'' @ [CHR 0x27]"

text \<open>
  What the service takes from its libraries and its interpreter, as parameters:
  \<^verbatim>\<open>json.dumps\<close> and \<^verbatim>\<open>json.loads\<close> on the entries of the store (of type \<open>'s\<close>, with
  \<open>None\<close> for a JSONDecodeError), the rendering of a value that is not a str inside an
  f-string, the decoding of the configuration variable (base64, then UTF-8, then
  \<^verbatim>\<open>json.loads\<close>; any of the three may raise), and the check of the store's URL made by
  \<^verbatim>\<open>redis.Redis.from_url\<close>.
\<close>

record 's lib =
  json_dumps :: "json \<Rightarrow> 's"
  json_loads :: "'s \<Rightarrow> json option"
  py_repr :: "json \<Rightarrow> string"
  decode_config :: "string \<Rightarrow> json option"
  from_url_ok :: "string \<Rightarrow> bool"

text \<open>\<^verbatim>\<open>str(x)\<close> inside an f-string: a str is taken as it is.\<close>

fun py_str :: "'s lib \<Rightarrow> json \<Rightarrow> string" where
  "py_str L (JString s) = s"
| "py_str L v = py_repr L v"

text \<open>\<^verbatim>\<open>int(time.time())\<close>: the clock's reading, truncated towards zero.\<close>

definition py_int :: "rat \<Rightarrow> int" where
  "py_int c = (if 0 \<le> c then \<lfloor>c\<rfloor> else \<lceil>c\<rceil>)"

text \<open>\<^verbatim>\<open>sep.join(xs)\<close> on a list of str.\<close>

fun join :: "string \<Rightarrow> string list \<Rightarrow> string" where
  "join sep [] = []"
| "join sep [x] = x"
| "join sep (x # y # ys) = x @ sep @ join sep (y # ys)"

section \<open>Startup: the module-level configuration\<close>

type_synonym environ = "string \<rightharpoonup> string"

record globals =
  AGENT_ID :: string
  AGENT_CONFIG :: json
  REDIS_URL :: string
  agent_context :: json
  agent_tools :: json

definition environ_get :: "environ \<Rightarrow> string \<Rightarrow> string \<Rightarrow> string" where
  "environ_get env k d = (case env k of None \<Rightarrow> d | Some v \<Rightarrow> v)"

text \<open>
  Lines 12 to 19 of the module, in their order. The configuration is decoded only when
  the variable is set and not empty; a decoded configuration that is not a dict has no
  \<^verbatim>\<open>get\<close>, and the import of the module fails there.
\<close>

definition startup :: "'s lib \<Rightarrow> environ \<Rightarrow> exn + globals" where
  "startup L env =
     (let agent_id = environ_get env ''AGENT_ID'' ''unknown'' in
      case (case env ''AGENT_CONFIG'' of
              None \<Rightarrow> Some (JObject [])
            | Some c \<Rightarrow> if c \<noteq> [] then decode_config L c else Some (JObject [])) of
        None \<Rightarrow> Inl ConfigDecodeError
      | Some config \<Rightarrow>
          (let redis_url = environ_get env ''REDIS_URL'' ''redis://localhost:6379'' in
           if \<not> from_url_ok L redis_url then Inl RedisUrlError
           else case config of
             JObject kvs \<Rightarrow>
               Inr \<lparr>AGENT_ID = agent_id, AGENT_CONFIG = config, REDIS_URL = redis_url,
                    agent_context = dict_get_default kvs ''systemPrompt'' (JString []),
                    agent_tools = dict_get_default kvs ''tools'' (JArray [])\<rparr>
           | _ \<Rightarrow> Inl (AttributeError (no_attribute_get config))))"

section \<open>The shared store\<close>

text \<open>
  The store maps a key to a list of entries, the most recent first. \<^verbatim>\<open>LPUSH\<close> puts an
  entry in front (of the empty list when the key is new); \<^verbatim>\<open>LRANGE key i j\<close> with
  indices from the front returns the entries at positions \<open>i\<close> to \<open>j\<close>, both included,
  as far as the list goes. With \<^verbatim>\<open>decode_responses=True\<close> the client returns the entries
  as the str that were pushed. The store itself does not fail here: a lost connection, or
  a key that holds a value of another type, is a fault of the store that the handlers
  do not catch.
\<close>

type_synonym 's store = "string \<Rightarrow> 's list"

definition lpush :: "'s store \<Rightarrow> string \<Rightarrow> 's \<Rightarrow> 's store" where
  "lpush st k v = st(k := v # st k)"

definition lrange :: "'s store \<Rightarrow> string \<Rightarrow> nat \<Rightarrow> nat \<Rightarrow> 's list" where
  "lrange st k i j = take (Suc j - i) (drop i (st k))"

definition messages_key :: "globals \<Rightarrow> string" where
  "messages_key g = ''agent:'' @ AGENT_ID g @ '':messages''"

section \<open>POST /message\<close>

text \<open>
  The names of the tools, \<^verbatim>\<open>[t.get('name', '') for t in agent_tools]\<close>: iterating a list
  gives its elements, a dict its keys and a str its characters (all str, which have no
  \<^verbatim>\<open>get\<close>); any other value cannot be iterated.
\<close>

fun tool_name :: "json \<Rightarrow> exn + json" where
  "tool_name (JObject kvs) = Inr (dict_get_default kvs ''name'' (JString []))"
| "tool_name v = Inl (AttributeError (no_attribute_get v))"

fun tool_names_list :: "json list \<Rightarrow> exn + json list" where
  "tool_names_list [] = Inr []"
| "tool_names_list (t # ts) =
     (case tool_name t of
        Inl e \<Rightarrow> Inl e
      | Inr n \<Rightarrow> (case tool_names_list ts of Inl e \<Rightarrow> Inl e | Inr ns \<Rightarrow> Inr (n # ns)))"

fun tool_names :: "json \<Rightarrow> exn + json list" where
  "tool_names (JArray ts) = tool_names_list ts"
| "tool_names (JObject kvs) =
     (if kvs = [] then Inr [] else Inl (AttributeError (no_attribute_get (JString []))))"
| "tool_names (JString s) =
     (if s = [] then Inr [] else Inl (AttributeError (no_attribute_get (JString []))))"
| "tool_names v = Inl TypeError"

text \<open>\<^verbatim>\<open>', '.join(names)\<close>: every item has to be a str.\<close>

fun str_items :: "json list \<Rightarrow> exn + string list" where
  "str_items [] = Inr []"
| "str_items (JString s # vs) = (case str_items vs of Inl e \<Rightarrow> Inl e | Inr ss \<Rightarrow> Inr (s # ss))"
| "str_items (v # vs) = Inl TypeError"

definition newline :: char where
  "newline = CHR 0x0A"

text \<open>The f-string of line 39.\<close>

definition response_content :: "'s lib \<Rightarrow> globals \<Rightarrow> json \<Rightarrow> exn + string" where
  "response_content L g message =
     (case tool_names (agent_tools g) of
        Inl e \<Rightarrow> Inl e
      | Inr names \<Rightarrow>
          (case str_items names of
             Inl e \<Rightarrow> Inl e
           | Inr ss \<Rightarrow>
               Inr (''Echo: '' @ py_str L message @ [newline] @ ''Context: '' @
                    py_str L (agent_context g) @ [newline] @ ''Tools: '' @ join '', '' ss)))"

definition user_record :: "json \<Rightarrow> int \<Rightarrow> json" where
  "user_record message t =
     JObject [(''role'', JString ''user''), (''content'', message), (''timestamp'', JInt t)]"

definition agent_record :: "string \<Rightarrow> int \<Rightarrow> json list \<Rightarrow> json" where
  "agent_record content t history =
     JObject [(''role'', JString ''agent''), (''content'', JString content),
              (''timestamp'', JInt t), (''memory'', JArray history)]"

text \<open>
  The handler takes the decoded body (what \<^verbatim>\<open>req.json()\<close> returned), the two readings of
  the clock (lines 30 and 40) and the store, and returns its answer, or the exception it
  raises, with the store as the call leaves it. A body that is not a dict has no \<^verbatim>\<open>get\<close>.
  A raise after the first push leaves the user's record in the store.
\<close>

definition message_endpoint ::
  "'s lib \<Rightarrow> globals \<Rightarrow> rat \<Rightarrow> rat \<Rightarrow> json \<Rightarrow> 's store \<Rightarrow> (exn + json) \<times> 's store" where
  "message_endpoint L g clock1 clock2 data st =
     (case data of
        JObject kvs \<Rightarrow>
          (let message = dict_get kvs ''message'' in
           if \<not> truthy message then (Inr (JObject [(''error'', JString ''Missing message'')]), st)
           else
             (let st1 = lpush st (messages_key g)
                          (json_dumps L (user_record message (py_int clock1))) in
              case those (map (json_loads L) (lrange st1 (messages_key g) 0 9)) of
                None \<Rightarrow> (Inl JSONDecodeError, st1)
              | Some history \<Rightarrow>
                  (case response_content L g message of
                     Inl e \<Rightarrow> (Inl e, st1)
                   | Inr content \<Rightarrow>
                       (let response = agent_record content (py_int clock2) history;
                            st2 = lpush st1 (messages_key g) (json_dumps L response)
                        in (Inr response, st2)))))
      | _ \<Rightarrow> (Inl (AttributeError (no_attribute_get data)), st))"

text \<open>
  The process: the globals are computed once, at startup, and every request of the
  sequence is handled with them; only the store passes from one call to the next.
\<close>

fun serve :: "'s lib \<Rightarrow> globals \<Rightarrow> (rat \<times> rat \<times> json) list \<Rightarrow> 's store \<Rightarrow> (exn + json) list \<times> 's store" where
  "serve L g [] st = ([], st)"
| "serve L g ((clock1, clock2, data) # reqs) st =
     (case message_endpoint L g clock1 clock2 data st of
        (answer, st1) \<Rightarrow> (case serve L g reqs st1 of (answers, st2) \<Rightarrow> (answer # answers, st2)))"

section \<open>The fact endpoints and the remote backend\<close>

text \<open>
  An outbound call of the \<^verbatim>\<open>requests\<close> library either raises (no connection, a timeout;
  the exception has a text) or returns the backend's response. Of a response the handlers
  use the status (with the reason phrase and the URL, which the text of an HTTPError
  quotes) and the outcome of \<^verbatim>\<open>resp.json()\<close>: the decoded body, or the text of the
  exception raised for a body that is not JSON.
\<close>

record http_request =
  http_method :: string
  url :: string
  json_payload :: "json option"

record http_response =
  status_code :: nat
  reason :: string
  response_url :: string
  json_result :: "string + json"

datatype http_outcome = Failed string | Responded http_response

type_synonym backend = "http_request \<Rightarrow> http_outcome"

text \<open>The decimal digits of a status code, as an f-string prints an int.\<close>

fun str_nat :: "nat \<Rightarrow> string" where
  "str_nat n = (if n < 10 then [''0123456789'' ! n]
                else str_nat (n div 10) @ [''0123456789'' ! (n mod 10)])"

declare str_nat.simps [simp del]

text \<open>
  \<^verbatim>\<open>resp.raise_for_status()\<close>, as the \<^verbatim>\<open>requests\<close> library implements it: an HTTPError
  for a status from 400 to 599, and nothing for any other status. The result is the text
  of the exception raised, if any.
\<close>

definition http_error_msg :: "http_response \<Rightarrow> string" where
  "http_error_msg resp =
     (if 400 \<le> status_code resp \<and> status_code resp < 500
      then str_nat (status_code resp) @ '' Client Error: '' @ reason resp @ '' for url: '' @
           response_url resp
      else if 500 \<le> status_code resp \<and> status_code resp < 600
      then str_nat (status_code resp) @ '' Server Error: '' @ reason resp @ '' for url: '' @
           response_url resp
      else [])"

definition raise_for_status :: "http_response \<Rightarrow> string option" where
  "raise_for_status resp = (if http_error_msg resp \<noteq> [] then Some (http_error_msg resp) else None)"

definition backend_url :: "environ \<Rightarrow> string" where
  "backend_url env = environ_get env ''BACKEND_URL'' ''http://host.docker.internal:4000''"

definition set_request :: "globals \<Rightarrow> environ \<Rightarrow> json \<Rightarrow> json \<Rightarrow> http_request" where
  "set_request g env key val =
     \<lparr>http_method = ''POST'', url = backend_url env @ ''/api/longterm/set'',
      json_payload = Some (JObject [(''agentId'', JString (AGENT_ID g)), (''key'', key),
                                    (''value'', val)])\<rparr>"

definition get_request :: "globals \<Rightarrow> environ \<Rightarrow> string \<Rightarrow> http_request" where
  "get_request g env key =
     \<lparr>http_method = ''GET'',
      url = backend_url env @ ''/api/longterm/get/'' @ AGENT_ID g @ ''/'' @ key,
      json_payload = None\<rparr>"

definition error_answer :: "string \<Rightarrow> json" where
  "error_answer msg = JObject [(''error'', JString msg)]"

text \<open>
  A handler returns its answer, or the exception it raises, and the list of the outbound
  calls it made. In \<^verbatim>\<open>set_fact\<close> the body is read and validated before the \<^verbatim>\<open>try\<close>; every
  exception raised inside the \<^verbatim>\<open>try\<close> of either handler is answered with its text.
\<close>

definition set_fact :: "globals \<Rightarrow> environ \<Rightarrow> backend \<Rightarrow> json \<Rightarrow> (exn + json) \<times> http_request list" where
  "set_fact g env backend data =
     (case data of
        JObject kvs \<Rightarrow>
          (let key = dict_get kvs ''key''; val = dict_get kvs ''value'' in
           if \<not> truthy key \<or> val = JNull then (Inr (error_answer ''Missing key or value''), [])
           else
             (let rq = set_request g env key val in
              case backend rq of
                Failed msg \<Rightarrow> (Inr (error_answer msg), [rq])
              | Responded resp \<Rightarrow>
                  (case raise_for_status resp of
                     Some msg \<Rightarrow> (Inr (error_answer msg), [rq])
                   | None \<Rightarrow> (Inr (JObject [(''status'', JString ''ok'')]), [rq]))))
      | _ \<Rightarrow> (Inl (AttributeError (no_attribute_get data)), []))"

definition get_fact :: "globals \<Rightarrow> environ \<Rightarrow> backend \<Rightarrow> string \<Rightarrow> (exn + json) \<times> http_request list" where
  "get_fact g env backend key =
     (let rq = get_request g env key in
      case backend rq of
        Failed msg \<Rightarrow> (Inr (error_answer msg), [rq])
      | Responded resp \<Rightarrow>
          (case raise_for_status resp of
             Some msg \<Rightarrow> (Inr (error_answer msg), [rq])
           | None \<Rightarrow>
               (case json_result resp of
                  Inl msg \<Rightarrow> (Inr (error_answer msg), [rq])
                | Inr (JObject kvs) \<Rightarrow> (Inr (JObject [(''value'', dict_get kvs ''value'')]), [rq])
                | Inr data \<Rightarrow> (Inr (error_answer (no_attribute_get data)), [rq]))))"

section \<open>Well-formed data, and the values used in the example runs\<close>

text \<open>
  The data model of the service: the configured tools are a list of dicts whose \<open>name\<close>,
  where present, is a str; the entries of the log that a request reads back (the nine
  most recent before its own) are serialised values; and \<^verbatim>\<open>json.loads\<close> returns what
  \<^verbatim>\<open>json.dumps\<close> was given.
\<close>

fun tool_ok :: "json \<Rightarrow> bool" where
  "tool_ok (JObject kvs) =
     (case map_of kvs ''name'' of None \<Rightarrow> True | Some (JString s) \<Rightarrow> True | Some v \<Rightarrow> False)"
| "tool_ok v = False"

fun tools_ok :: "json \<Rightarrow> bool" where
  "tools_ok (JArray ts) = list_all tool_ok ts"
| "tools_ok v = False"

fun tool_label :: "json \<Rightarrow> string" where
  "tool_label (JObject kvs) = (case map_of kvs ''name'' of Some (JString s) \<Rightarrow> s | _ \<Rightarrow> [])"
| "tool_label v = []"

fun tool_labels :: "json \<Rightarrow> string list" where
  "tool_labels (JArray ts) = map tool_label ts"
| "tool_labels v = []"

text \<open>The content string of line 39 when the tools are well formed.\<close>

definition echo_text :: "'s lib \<Rightarrow> globals \<Rightarrow> json \<Rightarrow> string" where
  "echo_text L g message =
     ''Echo: '' @ py_str L message @ [newline] @ ''Context: '' @ py_str L (agent_context g) @
     [newline] @ ''Tools: '' @ join '', '' (tool_labels (agent_tools g))"

text \<open>Reading a field of an answer: \<^verbatim>\<open>r.get(k)\<close>, and \<open>None\<close> when \<open>r\<close> is not a dict.\<close>

fun json_get :: "json \<Rightarrow> string \<Rightarrow> json" where
  "json_get (JObject kvs) k = dict_get kvs k"
| "json_get v k = JNull"

definition codec_ok :: "'s lib \<Rightarrow> bool" where
  "codec_ok L = (\<forall>j. json_loads L (json_dumps L j) = Some j)"

definition log_ok :: "'s lib \<Rightarrow> globals \<Rightarrow> 's store \<Rightarrow> bool" where
  "log_ok L g st = list_all (\<lambda>x. json_loads L x \<noteq> None) (take 9 (st (messages_key g)))"

text \<open>
  For the example runs: a library whose store keeps the values themselves and which
  decodes one configuration string, the base64 text of
  \<^verbatim>\<open>{"systemPrompt":"Be helpful","tools":[{"name":"search"}]}\<close>; the environment and the
  globals of an agent \<open>a1\<close> with that configuration; and stores with no entry and with
  twelve entries.
\<close>

definition example_config :: json where
  "example_config = JObject [(''systemPrompt'', JString ''Be helpful''),
                             (''tools'', JArray [JObject [(''name'', JString ''search'')]])]"

definition example_config_b64 :: string where
  "example_config_b64 =
     ''eyJzeXN0ZW1Qcm9tcHQiOiJCZSBoZWxwZnVsIiwidG9vbHMiOlt7Im5hbWUiOiJzZWFyY2gifV19''"

definition example_lib :: "json lib" where
  "example_lib = \<lparr>json_dumps = (\<lambda>j. j), json_loads = Some, py_repr = (\<lambda>j. ''?''),
                   decode_config = (\<lambda>c. if c = example_config_b64 then Some example_config else None),
                   from_url_ok = (\<lambda>u. True)\<rparr>"

definition example_environ :: environ where
  "example_environ = [''AGENT_ID'' \<mapsto> ''a1'', ''AGENT_CONFIG'' \<mapsto> example_config_b64]"

definition example_globals :: globals where
  "example_globals = \<lparr>AGENT_ID = ''a1'', AGENT_CONFIG = example_config,
                       REDIS_URL = ''redis://localhost:6379'',
                       agent_context = JString ''Be helpful'',
                       agent_tools = JArray [JObject [(''name'', JString ''search'')]]\<rparr>"

definition empty_store :: "json store" where
  "empty_store = (\<lambda>k. [])"

definition busy_store :: "json store" where
  "busy_store = (\<lambda>k. if k = ''agent:a1:messages''
       then [JInt 12, JInt 11, JInt 10, JInt 9, JInt 8, JInt 7, JInt 6, JInt 5, JInt 4, JInt 3, JInt 2, JInt 1]
       else [])"

text \<open>
  Backends for the example runs: one that answers every call with 200 and the body
  \<open>{"value": 7}\<close>, one that answers 200 with the body \<open>{}\<close>, one that answers 304 without
  a JSON body, one that answers 404, one that cannot be reached, and one that answers 200
  with the body \<open>null\<close>; the globals of an agent whose configuration is
  \<^verbatim>\<open>{"tools": [1]}\<close>; and the body of a request that sets a fact.
\<close>

definition backend_ok :: backend where
  "backend_ok rq = Responded \<lparr>status_code = 200, reason = ''OK'', response_url = url rq,
                               json_result = Inr (JObject [(''value'', JInt 7)])\<rparr>"

definition backend_empty :: backend where
  "backend_empty rq = Responded \<lparr>status_code = 200, reason = ''OK'', response_url = url rq,
                                  json_result = Inr (JObject [])\<rparr>"

definition backend_not_modified :: backend where
  "backend_not_modified rq =
     Responded \<lparr>status_code = 304, reason = ''Not Modified'', response_url = url rq,
                json_result = Inl ''Expecting value: line 1 column 1 (char 0)''\<rparr>"

definition backend_not_found :: backend where
  "backend_not_found rq = Responded \<lparr>status_code = 404, reason = ''Not Found'', response_url = url rq,
                                      json_result = Inr (JObject [(''error'', JString ''no such fact'')])\<rparr>"

definition backend_down :: backend where
  "backend_down rq = Failed ''Connection refused''"

definition backend_null :: backend where
  "backend_null rq = Responded \<lparr>status_code = 200, reason = ''OK'', response_url = url rq,
                                 json_result = Inr JNull\<rparr>"

definition broken_globals :: globals where
  "broken_globals = \<lparr>AGENT_ID = ''a1'', AGENT_CONFIG = JObject [(''tools'', JArray [JInt 1])],
                      REDIS_URL = ''redis://localhost:6379'',
                      agent_context = JString [], agent_tools = JArray [JInt 1]\<rparr>"

definition fact_body :: "(string \<times> json) list" where
  "fact_body = [(''key'', JString ''colour''), (''value'', JString ''blue'')]"

section \<open>Auxiliary facts\<close>

lemma those_map_Some:
  "list_all (\<lambda>x. f x \<noteq> None) xs \<Longrightarrow> those (map f xs) = Some (map (\<lambda>x. the (f x)) xs)"
  by (induction xs) auto

lemma map_Some_eqD: "map Some xs = map Some ys \<Longrightarrow> xs = ys"
  by (simp add: inj_map_eq_map)

lemma lrange_after_lpush: "lrange (lpush st k v) k 0 9 = v # take 9 (st k)"
  by (simp add: lrange_def lpush_def)

lemma tool_names_list_ok:
  "list_all tool_ok ts \<Longrightarrow>
     \<exists>ns. tool_names_list ts = Inr ns \<and> str_items ns = Inr (map tool_label ts)"
proof (induction ts)
  case Nil
  then show ?case by simp
next
  case (Cons t ts)
  then obtain ns where ns: "tool_names_list ts = Inr ns" "str_items ns = Inr (map tool_label ts)"
    by auto
  from Cons.prems have "tool_ok t" by simp
  then obtain kvs where t: "t = JObject kvs" by (cases t) auto
  show ?case
  proof (cases "map_of kvs ''name''")
    case None
    then show ?thesis using ns t by (simp add: dict_get_default_def)
  next
    case (Some v)
    with \<open>tool_ok t\<close> t obtain s where "v = JString s" by (cases v) auto
    then show ?thesis using ns t Some by (simp add: dict_get_default_def)
  qed
qed

lemma response_content_ok:
  assumes "tools_ok (agent_tools g)"
  shows "response_content L g message = Inr (echo_text L g message)"
proof -
  from assms obtain ts where ts: "agent_tools g = JArray ts" "list_all tool_ok ts"
    by (cases "agent_tools g") auto
  from tool_names_list_ok [OF ts(2)] obtain ns where
    "tool_names_list ts = Inr ns" "str_items ns = Inr (map tool_label ts)" by blast
  then show ?thesis using ts by (simp add: response_content_def echo_text_def)
qed

text \<open>The run of the handler on a truthy message, with well-formed data.\<close>

lemma message_endpoint_success:
  assumes m: "truthy (dict_get kvs ''message'')"
    and codec: "codec_ok L" and log: "log_ok L g st" and tools: "tools_ok (agent_tools g)"
  shows "message_endpoint L g clock1 clock2 (JObject kvs) st =
    (Inr (agent_record (echo_text L g (dict_get kvs ''message'')) (py_int clock2)
            (user_record (dict_get kvs ''message'') (py_int clock1) #
             map (\<lambda>x. the (json_loads L x)) (take 9 (st (messages_key g))))),
     st(messages_key g :=
          json_dumps L (agent_record (echo_text L g (dict_get kvs ''message'')) (py_int clock2)
            (user_record (dict_get kvs ''message'') (py_int clock1) #
             map (\<lambda>x. the (json_loads L x)) (take 9 (st (messages_key g))))) #
          json_dumps L (user_record (dict_get kvs ''message'') (py_int clock1)) #
          st (messages_key g)))"
proof -
  let ?k = "messages_key g"
  let ?u = "user_record (dict_get kvs ''message'') (py_int clock1)"
  have "those (map (json_loads L) (lrange (lpush st ?k (json_dumps L ?u)) ?k 0 9)) =
        Some (?u # map (\<lambda>x. the (json_loads L x)) (take 9 (st ?k)))"
    using codec log those_map_Some [of "json_loads L" "take 9 (st ?k)"]
    by (simp add: lrange_after_lpush codec_ok_def log_ok_def)
  then show ?thesis
    using m response_content_ok [OF tools, of L "dict_get kvs ''message''"]
    by (simp add: message_endpoint_def Let_def lpush_def)
qed

text \<open>
  Without well-formed tools the call raises after the user's record is pushed: the
  hypothesis on the tools is needed wherever a call is said to push two records.
\<close>

lemma message_endpoint_malformed_tools:
  assumes "truthy (dict_get kvs ''message'')" and "codec_ok L" and "log_ok L g st"
    and "agent_tools g = JArray [JInt 1]"
  shows "message_endpoint L g clock1 clock2 (JObject kvs) st =
           (Inl (AttributeError (no_attribute_get (JInt 1))),
            lpush st (messages_key g)
              (json_dumps L (user_record (dict_get kvs ''message'') (py_int clock1))))"
proof -
  let ?k = "messages_key g"
  let ?u = "user_record (dict_get kvs ''message'') (py_int clock1)"
  have "those (map (json_loads L) (lrange (lpush st ?k (json_dumps L ?u)) ?k 0 9)) =
        Some (?u # map (\<lambda>x. the (json_loads L x)) (take 9 (st ?k)))"
    using assms(2,3) those_map_Some [of "json_loads L" "take 9 (st ?k)"]
    by (simp add: lrange_after_lpush codec_ok_def log_ok_def)
  then show ?thesis
    using assms(1,4) by (simp add: message_endpoint_def Let_def response_content_def)
qed

lemma py_int_mono:
  assumes "a \<le> b"
  shows "py_int a \<le> py_int b"
proof (cases "0 \<le> a")
  case True
  with assms have "0 \<le> b" by simp
  with True assms show ?thesis by (simp add: py_int_def floor_mono)
next
  case False
  show ?thesis
  proof (cases "0 \<le> b")
    case True
    have "\<lceil>a\<rceil> \<le> 0" using False by (simp add: ceiling_le_zero)
    moreover have "0 \<le> \<lfloor>b\<rfloor>" using True by simp
    ultimately have "\<lceil>a\<rceil> \<le> \<lfloor>b\<rfloor>" by (rule order_trans)
    then show ?thesis using False True by (simp only: py_int_def if_True if_False)
  next
    case nb: False
    with False assms show ?thesis by (simp add: py_int_def ceiling_mono)
  qed
qed

lemma py_int_numeral: "py_int (numeral n) = numeral n"
  by (simp add: py_int_def)

lemma example_key: "messages_key example_globals = ''agent:a1:messages''"
  by (simp add: messages_key_def example_globals_def)

lemma example_codec_ok: "codec_ok example_lib"
  by (simp add: codec_ok_def example_lib_def)

lemma example_tools_ok: "tools_ok (agent_tools example_globals)"
  by (simp add: example_globals_def)

lemma example_log_ok: "log_ok example_lib g st"
  by (simp add: log_ok_def example_lib_def list_all_iff)

lemma example_content:
  "response_content example_lib example_globals (JString ''hi'') =
     Inr (''Echo: hi'' @ [newline] @ ''Context: Be helpful'' @ [newline] @ ''Tools: search'')"
  by (simp add: response_content_def example_globals_def dict_get_default_def)

lemma startup_configured:
  assumes "env ''AGENT_CONFIG'' = Some c" and "c \<noteq> []"
    and "decode_config L c = Some (JObject cfg)"
    and "from_url_ok L (environ_get env ''REDIS_URL'' ''redis://localhost:6379'')"
  shows "startup L env =
           Inr \<lparr>AGENT_ID = environ_get env ''AGENT_ID'' ''unknown'', AGENT_CONFIG = JObject cfg,
                REDIS_URL = environ_get env ''REDIS_URL'' ''redis://localhost:6379'',
                agent_context = dict_get_default cfg ''systemPrompt'' (JString []),
                agent_tools = dict_get_default cfg ''tools'' (JArray [])\<rparr>"
  using assms by (simp add: startup_def)

lemma agent_answer_content:
  assumes "message_endpoint L g clock1 clock2 data st = (Inr r, st2)"
    and "json_get r ''role'' = JString ''agent''"
  shows "\<exists>content. response_content L g (json_get data ''message'') = Inr content \<and>
           json_get r ''content'' = JString content"
proof (cases data)
  case (JObject kvs)
  show ?thesis
  proof (cases "truthy (dict_get kvs ''message'')")
    case False
    with assms JObject show ?thesis
      by (auto simp: message_endpoint_def dict_get_def dict_get_default_def)
  next
    case True
    with assms(1) JObject obtain content history where
      "response_content L g (dict_get kvs ''message'') = Inr content"
      "r = agent_record content (py_int clock2) history"
      by (auto simp: message_endpoint_def Let_def split: option.splits sum.splits)
    then show ?thesis using JObject
      by (simp add: agent_record_def dict_get_def dict_get_default_def)
  qed
qed (use assms in \<open>auto simp: message_endpoint_def\<close>)

lemma default_content:
  assumes "agent_context g = JString []" and "agent_tools g = JArray []"
  shows "response_content L g m =
           Inr (''Echo: '' @ py_str L m @ [newline] @ ''Context: '' @ [newline] @ ''Tools: '')"
  using assms by (simp add: response_content_def)

lemma serve_default_contents:
  assumes "agent_context g = JString []" and "agent_tools g = JArray []"
  shows "\<forall>answer \<in> set (fst (serve L g reqs st)).
           \<forall>r. answer = Inr r \<and> json_get r ''role'' = JString ''agent'' \<longrightarrow>
             (\<exists>m. json_get r ''content'' =
                    JString (''Echo: '' @ m @ [newline] @ ''Context: '' @ [newline] @ ''Tools: ''))"
proof (induction reqs arbitrary: st)
  case Nil
  then show ?case by simp
next
  case (Cons req reqs)
  obtain clock1 clock2 data where req: "req = (clock1, clock2, data)" by (cases req) auto
  obtain answer st1 where step: "message_endpoint L g clock1 clock2 data st = (answer, st1)"
    by (cases "message_endpoint L g clock1 clock2 data st") auto
  obtain answers st2 where rest: "serve L g reqs st1 = (answers, st2)"
    by (cases "serve L g reqs st1") auto
  have first: "\<exists>m. json_get r ''content'' =
                    JString (''Echo: '' @ m @ [newline] @ ''Context: '' @ [newline] @ ''Tools: '')"
    if "answer = Inr r" and "json_get r ''role'' = JString ''agent''" for r
    using agent_answer_content [of L g clock1 clock2 data st r st1] step that
      default_content [OF assms, of L "json_get data ''message''"]
    by auto
  from Cons.IH [of st1] rest have "\<forall>answer \<in> set answers.
           \<forall>r. answer = Inr r \<and> json_get r ''role'' = JString ''agent'' \<longrightarrow>
             (\<exists>m. json_get r ''content'' =
                    JString (''Echo: '' @ m @ [newline] @ ''Context: '' @ [newline] @ ''Tools: ''))"
    by simp
  with first show ?case by (auto simp: req step rest)
qed


lemma http_error_msg_nonempty:
  "400 \<le> status_code resp \<Longrightarrow> status_code resp < 600 \<Longrightarrow> http_error_msg resp \<noteq> []"
  by (auto simp: http_error_msg_def)

lemma raise_for_status_error:
  "400 \<le> status_code resp \<Longrightarrow> status_code resp < 600 \<Longrightarrow>
     raise_for_status resp = Some (http_error_msg resp)"
  by (simp add: raise_for_status_def http_error_msg_nonempty)

lemma raise_for_status_none:
  "status_code resp < 400 \<or> 600 \<le> status_code resp \<Longrightarrow> raise_for_status resp = None"
  by (auto simp: raise_for_status_def http_error_msg_def)

lemma str_nat_404: "str_nat 404 = ''404''"
  by (simp add: str_nat.simps)

lemma set_fact_never_raises: "\<exists>answer. fst (set_fact g env backend (JObject kvs)) = Inr answer"
  by (simp add: set_fact_def Let_def split: http_outcome.splits option.splits)

lemma set_fact_backend:
  assumes "truthy (dict_get kvs ''key'')" and "dict_get kvs ''value'' \<noteq> JNull"
  shows "set_fact g env backend (JObject kvs) =
     (case backend (set_request g env (dict_get kvs ''key'') (dict_get kvs ''value'')) of
        Failed msg \<Rightarrow> Inr (error_answer msg)
      | Responded resp \<Rightarrow>
          (case raise_for_status resp of
             Some msg \<Rightarrow> Inr (error_answer msg)
           | None \<Rightarrow> Inr (JObject [(''status'', JString ''ok'')])),
      [set_request g env (dict_get kvs ''key'') (dict_get kvs ''value'')])"
  using assms by (simp add: set_fact_def Let_def split: http_outcome.splits option.splits)

lemma no_attribute_get_nonempty: "no_attribute_get v \<noteq> []"
  by (simp add: no_attribute_get_def)

lemma example_set_url:
  "url (set_request example_globals Map.empty k v) = ''http://host.docker.internal:4000/api/longterm/set''"
  by (simp add: set_request_def backend_url_def environ_get_def)

lemma example_get_url:
  "url (get_request example_globals Map.empty ''colour'') =
     ''http://host.docker.internal:4000/api/longterm/get/a1/colour''"
  by (simp add: get_request_def backend_url_def environ_get_def example_globals_def)

lemma example_not_found_answer:
  "set_fact example_globals Map.empty backend_not_found (JObject fact_body) =
     (Inr (JObject [(''error'',
        JString ''404 Client Error: Not Found for url: http://host.docker.internal:4000/api/longterm/set'')]),
      [set_request example_globals Map.empty (JString ''colour'') (JString ''blue'')])"
  by (simp add: set_fact_def fact_body_def dict_get_def dict_get_default_def backend_not_found_def
        raise_for_status_def http_error_msg_def example_set_url error_answer_def str_nat_404)

section \<open>Properties of POST /message\<close>




text \<open>
  C1. As stated, for every non-empty string message, the claim fails: with the
  configuration \<^verbatim>\<open>{"tools": [1]}\<close> the call on the message \<open>hi\<close> pushes the user's record,
  then raises while it builds the content (an int has no \<^verbatim>\<open>get\<close>). One entry is appended,
  not two, and no agent record is returned. The code takes the decoded configuration
  and the entries of the log as they are.
\<close>

theorem handle_message_appends_two_counterexample:
  "message_endpoint example_lib broken_globals 5 6 (JObject [(''message'', JString ''hi'')]) empty_store =
     (Inl (AttributeError (no_attribute_get (JInt 1))),
      empty_store(''agent:a1:messages'' :=
        [JObject [(''role'', JString ''user''), (''content'', JString ''hi''), (''timestamp'', JInt 5)]]))"
  by (simp add: message_endpoint_def dict_get_def dict_get_default_def broken_globals_def
        response_content_def lpush_def lrange_def messages_key_def example_lib_def empty_store_def
        user_record_def py_int_numeral)

text \<open>
  C1, amended. When the configured tools are a list of dicts whose \<open>name\<close>, where present,
  is a str, the nine most recent entries of the log decode, and \<^verbatim>\<open>json.loads\<close> returns what
  \<^verbatim>\<open>json.dumps\<close> was given, then for every non-empty string \<open>message\<close> one call puts exactly
  two new entries in front of the log under the key \<open>agent:<AGENT_ID>:messages\<close>: first
  the user's record \<open>{role: "user", content: message, timestamp}\<close> with the first reading
  of the clock, then on top of it the agent's record \<open>{role: "agent", content, timestamp,
  memory}\<close>, which is also the answer. Its \<open>memory\<close> is the decoded ten most recent entries
  of the log as it was after the first push and before the second: the user's record
  followed by the nine most recent earlier entries, so never the agent's record itself.
\<close>

theorem handle_message_appends_two:
  assumes "m \<noteq> []" and "map_of kvs ''message'' = Some (JString m)"
    and "codec_ok L" and "log_ok L g st" and "tools_ok (agent_tools g)"
  shows "\<exists>user_rec agent_rec content history.
           user_rec = JObject [(''role'', JString ''user''), (''content'', JString m),
                               (''timestamp'', JInt (py_int clock1))] \<and>
           agent_rec = JObject [(''role'', JString ''agent''), (''content'', JString content),
                                (''timestamp'', JInt (py_int clock2)), (''memory'', JArray history)] \<and>
           response_content L g (JString m) = Inr content \<and>
           message_endpoint L g clock1 clock2 (JObject kvs) st =
             (Inr agent_rec,
              st(''agent:'' @ AGENT_ID g @ '':messages'' :=
                   json_dumps L agent_rec # json_dumps L user_rec #
                   st (''agent:'' @ AGENT_ID g @ '':messages''))) \<and>
           json_get agent_rec ''memory'' = JArray history \<and>
           history = user_rec # map (\<lambda>x. the (json_loads L x))
                                  (take 9 (st (''agent:'' @ AGENT_ID g @ '':messages''))) \<and>
           map (json_loads L)
             (take 10 (json_dumps L user_rec # st (''agent:'' @ AGENT_ID g @ '':messages''))) =
             map Some history"
proof -
  let ?k = "''agent:'' @ AGENT_ID g @ '':messages''"
  let ?u = "JObject [(''role'', JString ''user''), (''content'', JString m),
                     (''timestamp'', JInt (py_int clock1))]"
  let ?h = "?u # map (\<lambda>x. the (json_loads L x)) (take 9 (st ?k))"
  let ?c = "echo_text L g (JString m)"
  let ?r = "JObject [(''role'', JString ''agent''), (''content'', JString ?c),
                     (''timestamp'', JInt (py_int clock2)), (''memory'', JArray ?h)]"
  have key: "messages_key g = ?k" by (simp add: messages_key_def)
  have msg: "dict_get kvs ''message'' = JString m"
    using assms(2) by (simp add: dict_get_def dict_get_default_def)
  have run: "message_endpoint L g clock1 clock2 (JObject kvs) st =
      (Inr ?r, st(?k := json_dumps L ?r # json_dumps L ?u # st ?k))"
    using message_endpoint_success [of kvs L g st clock1 clock2] assms msg
    by (simp add: key agent_record_def user_record_def)
  have content: "response_content L g (JString m) = Inr ?c"
    using response_content_ok [OF assms(5), of L "JString m"] by simp
  have mem: "json_get ?r ''memory'' = JArray ?h"
    by (simp add: dict_get_def dict_get_default_def)
  have "map (json_loads L) (take 9 (st ?k)) =
        map Some (map (\<lambda>x. the (json_loads L x)) (take 9 (st ?k)))"
    using assms(4) by (auto simp: log_ok_def list_all_iff key)
  then have snap: "map (json_loads L) (take 10 (json_dumps L ?u # st ?k)) = map Some ?h"
    using assms(3) by (simp add: codec_ok_def)
  show ?thesis
    using run content mem snap
    by (intro exI [of _ ?u] exI [of _ ?r] exI [of _ ?c] exI [of _ ?h]) simp
qed

theorem handle_message_appends_two_witness:
  "''hi'' \<noteq> [] \<and>
   map_of [(''message'', JString ''hi'')] ''message'' = Some (JString ''hi'') \<and>
   codec_ok example_lib \<and> log_ok example_lib example_globals empty_store \<and>
   tools_ok (agent_tools example_globals) \<and>
   message_endpoint example_lib example_globals 5 6 (JObject [(''message'', JString ''hi'')]) empty_store =
     (Inr (JObject [(''role'', JString ''agent''),
                    (''content'', JString (''Echo: hi'' @ [newline] @ ''Context: Be helpful'' @
                                           [newline] @ ''Tools: search'')),
                    (''timestamp'', JInt 6),
                    (''memory'', JArray [JObject [(''role'', JString ''user''),
                                                  (''content'', JString ''hi''),
                                                  (''timestamp'', JInt 5)]])]),
      empty_store(''agent:a1:messages'' :=
        [JObject [(''role'', JString ''agent''),
                  (''content'', JString (''Echo: hi'' @ [newline] @ ''Context: Be helpful'' @
                                         [newline] @ ''Tools: search'')),
                  (''timestamp'', JInt 6),
                  (''memory'', JArray [JObject [(''role'', JString ''user''),
                                                (''content'', JString ''hi''),
                                                (''timestamp'', JInt 5)]])],
         JObject [(''role'', JString ''user''), (''content'', JString ''hi''),
                  (''timestamp'', JInt 5)]]))"
proof -
  have h1: "''hi'' \<noteq> []" by simp
  have h2: "map_of [(''message'', JString ''hi'')] ''message'' = Some (JString ''hi'')" by simp
  note h3 = example_codec_ok and h4 = example_log_ok [of example_globals empty_store]
    and h5 = example_tools_ok
  from handle_message_appends_two [OF h1 h2 h3 h4 h5, of 5 6]
  obtain user_rec agent_rec content history where
    u: "user_rec = JObject [(''role'', JString ''user''), (''content'', JString ''hi''),
                            (''timestamp'', JInt (py_int 5))]" and
    r: "agent_rec = JObject [(''role'', JString ''agent''), (''content'', JString content),
                             (''timestamp'', JInt (py_int 6)), (''memory'', JArray history)]" and
    c: "response_content example_lib example_globals (JString ''hi'') = Inr content" and
    run: "message_endpoint example_lib example_globals 5 6 (JObject [(''message'', JString ''hi'')])
            empty_store =
            (Inr agent_rec,
             empty_store(''agent:'' @ AGENT_ID example_globals @ '':messages'' :=
               json_dumps example_lib agent_rec # json_dumps example_lib user_rec #
               empty_store (''agent:'' @ AGENT_ID example_globals @ '':messages'')))" and
    h: "history = user_rec # map (\<lambda>x. the (json_loads example_lib x))
                     (take 9 (empty_store (''agent:'' @ AGENT_ID example_globals @ '':messages'')))"
    by blast
  from c have content: "content = ''Echo: hi'' @ [newline] @ ''Context: Be helpful'' @ [newline] @ ''Tools: search''"
    by (simp add: example_content)
  from h have history: "history = [user_rec]" by (simp add: empty_store_def)
  have ident: "AGENT_ID example_globals = ''a1''" by (simp add: example_globals_def)
  from run have "message_endpoint example_lib example_globals 5 6 (JObject [(''message'', JString ''hi'')])
            empty_store =
     (Inr agent_rec, empty_store(''agent:a1:messages'' := [agent_rec, user_rec]))"
    by (simp add: ident example_lib_def empty_store_def)
  then show ?thesis using h1 h2 h3 h4 h5
    unfolding r u history content py_int_numeral by simp
qed



text \<open>
  C8. When the second reading of the clock is not before the first, the agent's record
  carries a timestamp that is at least the timestamp of the user's record: the two
  records that one call writes have non-decreasing timestamps in the order of their
  insertion.
\<close>

theorem timestamps_in_insertion_order:
  assumes "clock1 \<le> clock2"
    and "truthy (dict_get kvs ''message'')"
    and "codec_ok L" and "log_ok L g st" and "tools_ok (agent_tools g)"
  shows "\<exists>user_rec agent_rec t1 t2.
           message_endpoint L g clock1 clock2 (JObject kvs) st =
             (Inr agent_rec,
              st(messages_key g := json_dumps L agent_rec # json_dumps L user_rec # st (messages_key g))) \<and>
           json_get user_rec ''timestamp'' = JInt t1 \<and>
           json_get agent_rec ''timestamp'' = JInt t2 \<and>
           t1 = py_int clock1 \<and> t2 = py_int clock2 \<and> t1 \<le> t2"
proof -
  let ?k = "messages_key g"
  let ?u = "user_record (dict_get kvs ''message'') (py_int clock1)"
  let ?h = "?u # map (\<lambda>x. the (json_loads L x)) (take 9 (st ?k))"
  let ?r = "agent_record (echo_text L g (dict_get kvs ''message'')) (py_int clock2) ?h"
  have run: "message_endpoint L g clock1 clock2 (JObject kvs) st =
      (Inr ?r, st(?k := json_dumps L ?r # json_dumps L ?u # st ?k))"
    using message_endpoint_success [OF assms(2-5)] by simp
  have tu: "json_get ?u ''timestamp'' = JInt (py_int clock1)"
    by (simp add: user_record_def dict_get_def dict_get_default_def)
  have ta: "json_get ?r ''timestamp'' = JInt (py_int clock2)"
    by (simp add: agent_record_def dict_get_def dict_get_default_def)
  have le: "py_int clock1 \<le> py_int clock2"
    using assms(1) by (rule py_int_mono)
  show ?thesis
    using run tu ta le
    by (intro exI [of _ ?u] exI [of _ ?r] exI [of _ "py_int clock1"] exI [of _ "py_int clock2"]) simp
qed


theorem timestamps_in_insertion_order_witness:
  "(5::rat) \<le> 13 / 2 \<and>
   truthy (dict_get [(''message'', JString ''hi'')] ''message'') \<and>
   codec_ok example_lib \<and> log_ok example_lib example_globals empty_store \<and>
   tools_ok (agent_tools example_globals) \<and>
   (\<exists>user_rec agent_rec.
      message_endpoint example_lib example_globals 5 (13 / 2) (JObject [(''message'', JString ''hi'')])
          empty_store =
        (Inr agent_rec,
         empty_store(''agent:a1:messages'' := [agent_rec, user_rec])) \<and>
      json_get user_rec ''timestamp'' = JInt 5 \<and>
      json_get agent_rec ''timestamp'' = JInt 6)"
proof -
  have h0: "(5::rat) \<le> 13 / 2" by simp
  have h1: "truthy (dict_get [(''message'', JString ''hi'')] ''message'')"
    by (simp add: dict_get_def dict_get_default_def)
  note h2 = example_codec_ok and h3 = example_log_ok [of example_globals empty_store] and h4 = example_tools_ok
  have t1: "py_int 5 = 5" by (simp add: py_int_def)
  have "\<lfloor>13 / 2 :: rat\<rfloor> = 6" by (rule floor_unique) simp_all
  then have t2: "py_int (13 / 2) = 6" by (simp add: py_int_def)
  from timestamps_in_insertion_order [OF h0 h1 h2 h3 h4]
  obtain user_rec agent_rec t1 t2 where
    "message_endpoint example_lib example_globals 5 (13 / 2) (JObject [(''message'', JString ''hi'')])
          empty_store =
        (Inr agent_rec,
         empty_store(messages_key example_globals :=
           json_dumps example_lib agent_rec # json_dumps example_lib user_rec #
           empty_store (messages_key example_globals)))"
    "json_get user_rec ''timestamp'' = JInt t1" "json_get agent_rec ''timestamp'' = JInt t2"
    "t1 = py_int 5" "t2 = py_int (13 / 2)"
    by blast
  then have "message_endpoint example_lib example_globals 5 (13 / 2) (JObject [(''message'', JString ''hi'')])
          empty_store =
        (Inr agent_rec, empty_store(''agent:a1:messages'' := [agent_rec, user_rec])) \<and>
      json_get user_rec ''timestamp'' = JInt 5 \<and>
      json_get agent_rec ''timestamp'' = JInt 6"
    by (simp add: example_key example_lib_def empty_store_def t1 t2)
  then show ?thesis using h0 h1 h2 h3 h4 by blast
qed

text \<open>
  C5. When the configuration variable decodes to an object with the \<open>systemPrompt\<close>
  \<open>Be helpful\<close> and the \<open>tools\<close> \<open>[{"name": "search"}]\<close>, startup succeeds, and every
  request with the message \<open>hi\<close> is answered by an agent record whose content is exactly
  \<open>Echo: hi\<close>, \<open>Context: Be helpful\<close> and \<open>Tools: search\<close>, separated by newlines.
\<close>

theorem configured_echo_content:
  assumes "env ''AGENT_CONFIG'' = Some c" and "c \<noteq> []"
    and "decode_config L c = Some (JObject cfg)"
    and "map_of cfg ''systemPrompt'' = Some (JString ''Be helpful'')"
    and "map_of cfg ''tools'' = Some (JArray [JObject tool])"
    and "map_of tool ''name'' = Some (JString ''search'')"
    and "from_url_ok L (environ_get env ''REDIS_URL'' ''redis://localhost:6379'')"
    and "codec_ok L"
  shows "\<exists>g. startup L env = Inr g \<and>
           (\<forall>kvs clock1 clock2 st.
              map_of kvs ''message'' = Some (JString ''hi'') \<and> log_ok L g st \<longrightarrow>
              (\<exists>response st2.
                 message_endpoint L g clock1 clock2 (JObject kvs) st = (Inr response, st2) \<and>
                 json_get response ''content'' =
                   JString (''Echo: hi'' @ [newline] @ ''Context: Be helpful'' @ [newline] @
                            ''Tools: search'')))"
proof -
  let ?g = "\<lparr>AGENT_ID = environ_get env ''AGENT_ID'' ''unknown'', AGENT_CONFIG = JObject cfg,
             REDIS_URL = environ_get env ''REDIS_URL'' ''redis://localhost:6379'',
             agent_context = dict_get_default cfg ''systemPrompt'' (JString []),
             agent_tools = dict_get_default cfg ''tools'' (JArray [])\<rparr>"
  have start: "startup L env = Inr ?g"
    using assms(1,2,3,7) by (rule startup_configured)
  have ctx: "dict_get_default cfg ''systemPrompt'' (JString []) = JString ''Be helpful''"
    using assms(4) by (simp add: dict_get_default_def)
  have tls: "dict_get_default cfg ''tools'' (JArray []) = JArray [JObject tool]"
    using assms(5) by (simp add: dict_get_default_def)
  have ok: "tools_ok (agent_tools ?g)"
    using assms(6) by (simp add: tls)
  have echoed: "echo_text L ?g (JString ''hi'') =
      ''Echo: hi'' @ [newline] @ ''Context: Be helpful'' @ [newline] @ ''Tools: search''"
    using assms(6) by (simp add: echo_text_def ctx tls)
  have "\<exists>response st2.
          message_endpoint L ?g clock1 clock2 (JObject kvs) st = (Inr response, st2) \<and>
          json_get response ''content'' =
            JString (''Echo: hi'' @ [newline] @ ''Context: Be helpful'' @ [newline] @ ''Tools: search'')"
    if msg: "map_of kvs ''message'' = Some (JString ''hi'')" and log: "log_ok L ?g st"
    for kvs clock1 clock2 st
  proof -
    have m: "dict_get kvs ''message'' = JString ''hi''"
      using msg by (simp add: dict_get_def dict_get_default_def)
    then have t: "truthy (dict_get kvs ''message'')" by simp
    show ?thesis
      unfolding message_endpoint_success [OF t assms(8) log ok, of clock1 clock2] m echoed
      by (simp add: agent_record_def dict_get_def dict_get_default_def)
  qed
  with start show ?thesis by blast
qed


theorem configured_echo_content_witness:
  "example_environ ''AGENT_CONFIG'' = Some example_config_b64 \<and> example_config_b64 \<noteq> [] \<and>
   decode_config example_lib example_config_b64 =
     Some (JObject [(''systemPrompt'', JString ''Be helpful''),
                    (''tools'', JArray [JObject [(''name'', JString ''search'')]])]) \<and>
   from_url_ok example_lib (environ_get example_environ ''REDIS_URL'' ''redis://localhost:6379'') \<and>
   codec_ok example_lib \<and>
   startup example_lib example_environ = Inr example_globals \<and>
   log_ok example_lib example_globals busy_store \<and>
   (\<exists>response st2.
      message_endpoint example_lib example_globals 5 6 (JObject [(''message'', JString ''hi'')]) busy_store =
        (Inr response, st2) \<and>
      json_get response ''content'' =
        JString (''Echo: hi'' @ [newline] @ ''Context: Be helpful'' @ [newline] @ ''Tools: search''))"
proof -
  let ?cfg = "[(''systemPrompt'', JString ''Be helpful''),
               (''tools'', JArray [JObject [(''name'', JString ''search'')]])]"
  have h1: "example_environ ''AGENT_CONFIG'' = Some example_config_b64"
    by (simp add: example_environ_def)
  have h2: "example_config_b64 \<noteq> []" by (simp add: example_config_b64_def)
  have h3: "decode_config example_lib example_config_b64 = Some (JObject ?cfg)"
    by (simp add: example_lib_def example_config_def)
  have h4: "map_of ?cfg ''systemPrompt'' = Some (JString ''Be helpful'')" by simp
  have h5: "map_of ?cfg ''tools'' = Some (JArray [JObject [(''name'', JString ''search'')]])" by simp
  have h6: "map_of [(''name'', JString ''search'')] ''name'' = Some (JString ''search'')" by simp
  have h7: "from_url_ok example_lib (environ_get example_environ ''REDIS_URL'' ''redis://localhost:6379'')"
    by (simp add: example_lib_def)
  note h8 = example_codec_ok
  have start: "startup example_lib example_environ = Inr example_globals"
    using h1 h2 h3 h7
    by (simp add: startup_def example_globals_def example_config_def environ_get_def
          example_environ_def dict_get_default_def)
  from configured_echo_content [OF h1 h2 h3 h4 h5 h6 h7 h8]
  obtain g where g: "startup example_lib example_environ = Inr g" and
    run: "\<forall>kvs clock1 clock2 st.
              map_of kvs ''message'' = Some (JString ''hi'') \<and> log_ok example_lib g st \<longrightarrow>
              (\<exists>response st2.
                 message_endpoint example_lib g clock1 clock2 (JObject kvs) st = (Inr response, st2) \<and>
                 json_get response ''content'' =
                   JString (''Echo: hi'' @ [newline] @ ''Context: Be helpful'' @ [newline] @
                            ''Tools: search''))"
    by blast
  from g start have eq: "g = example_globals" by simp
  have msg: "map_of [(''message'', JString ''hi'')] ''message'' = Some (JString ''hi'')" by simp
  from run [rule_format, of "[(''message'', JString ''hi'')]" busy_store 5 6] msg
    example_log_ok [of example_globals busy_store]
  have "\<exists>response st2.
      message_endpoint example_lib example_globals 5 6 (JObject [(''message'', JString ''hi'')]) busy_store =
        (Inr response, st2) \<and>
      json_get response ''content'' =
        JString (''Echo: hi'' @ [newline] @ ''Context: Be helpful'' @ [newline] @ ''Tools: search'')"
    unfolding eq by blast
  with h1 h2 h3 h7 h8 start example_log_ok [of example_globals busy_store] show ?thesis by blast
qed

section \<open>Properties of the startup\<close>

text \<open>
  C9. A startup that succeeds with \<open>AGENT_ID\<close> unset has the identity \<open>unknown\<close>. With
  \<open>AGENT_CONFIG\<close> absent or empty (and a store URL that the client accepts) the startup
  succeeds, the configuration is \<open>{}\<close>, the context string is empty and the tool list is
  \<open>[]\<close>; and in every sequence of requests served by the process, from any store, every
  agent record answered has the content \<open>Echo: m\<close>, \<open>Context: \<close>, \<open>Tools: \<close> for some
  \<open>m\<close>: every call reads the same context and tools.
\<close>

theorem startup_defaults:
  "(\<forall>g. startup L env = Inr g \<and> env ''AGENT_ID'' = None \<longrightarrow> AGENT_ID g = ''unknown'') \<and>
   ((env ''AGENT_CONFIG'' = None \<or> env ''AGENT_CONFIG'' = Some []) \<and>
    from_url_ok L (environ_get env ''REDIS_URL'' ''redis://localhost:6379'') \<longrightarrow>
    (\<exists>g. startup L env = Inr g \<and>
          AGENT_CONFIG g = JObject [] \<and> agent_context g = JString [] \<and> agent_tools g = JArray [] \<and>
          (\<forall>reqs st. \<forall>answer \<in> set (fst (serve L g reqs st)).
             \<forall>r. answer = Inr r \<and> json_get r ''role'' = JString ''agent'' \<longrightarrow>
               (\<exists>m. json_get r ''content'' =
                  JString (''Echo: '' @ m @ [newline] @ ''Context: '' @ [newline] @ ''Tools: '')))))"
proof (intro conjI allI impI)
  fix g
  assume "startup L env = Inr g \<and> env ''AGENT_ID'' = None"
  then show "AGENT_ID g = ''unknown''"
    by (auto simp: startup_def Let_def environ_get_def split: option.splits if_splits json.splits)
next
  let ?g = "\<lparr>AGENT_ID = environ_get env ''AGENT_ID'' ''unknown'', AGENT_CONFIG = JObject [],
             REDIS_URL = environ_get env ''REDIS_URL'' ''redis://localhost:6379'',
             agent_context = JString [], agent_tools = JArray []\<rparr>"
  assume a: "(env ''AGENT_CONFIG'' = None \<or> env ''AGENT_CONFIG'' = Some []) \<and>
    from_url_ok L (environ_get env ''REDIS_URL'' ''redis://localhost:6379'')"
  then have start: "startup L env = Inr ?g"
    by (auto simp: startup_def dict_get_default_def)
  have "\<forall>reqs st. \<forall>answer \<in> set (fst (serve L ?g reqs st)).
             \<forall>r. answer = Inr r \<and> json_get r ''role'' = JString ''agent'' \<longrightarrow>
               (\<exists>m. json_get r ''content'' =
                  JString (''Echo: '' @ m @ [newline] @ ''Context: '' @ [newline] @ ''Tools: ''))"
    using serve_default_contents [of ?g L] by simp
  with start show "\<exists>g. startup L env = Inr g \<and>
          AGENT_CONFIG g = JObject [] \<and> agent_context g = JString [] \<and> agent_tools g = JArray [] \<and>
          (\<forall>reqs st. \<forall>answer \<in> set (fst (serve L g reqs st)).
             \<forall>r. answer = Inr r \<and> json_get r ''role'' = JString ''agent'' \<longrightarrow>
               (\<exists>m. json_get r ''content'' =
                  JString (''Echo: '' @ m @ [newline] @ ''Context: '' @ [newline] @ ''Tools: '')))"
    by (intro exI [of _ ?g]) simp
qed

theorem startup_defaults_witness:
  "(Map.empty :: environ) ''AGENT_ID'' = None \<and>
   (Map.empty :: environ) ''AGENT_CONFIG'' = None \<and>
   from_url_ok example_lib (environ_get Map.empty ''REDIS_URL'' ''redis://localhost:6379'') \<and>
   (\<exists>g. startup example_lib Map.empty = Inr g \<and> AGENT_ID g = ''unknown'' \<and>
      AGENT_CONFIG g = JObject [] \<and> agent_context g = JString [] \<and> agent_tools g = JArray [] \<and>
      (\<exists>r1 r2 st2.
         serve example_lib g
           [(5, 6, JObject [(''message'', JString ''hi'')]),
            (7, 8, JObject [(''message'', JString ''bye'')])] empty_store = ([Inr r1, Inr r2], st2) \<and>
         json_get r1 ''content'' = JString (''Echo: hi'' @ [newline] @ ''Context: '' @ [newline] @ ''Tools: '') \<and>
         json_get r2 ''content'' = JString (''Echo: bye'' @ [newline] @ ''Context: '' @ [newline] @ ''Tools: '')))"
proof -
  have h1: "(Map.empty :: environ) ''AGENT_ID'' = None" by simp
  have h2: "(Map.empty :: environ) ''AGENT_CONFIG'' = None" by simp
  have h3: "from_url_ok example_lib (environ_get Map.empty ''REDIS_URL'' ''redis://localhost:6379'')"
    by (simp add: example_lib_def)
  from startup_defaults [of example_lib Map.empty] h2 h3
  obtain g where g: "startup example_lib Map.empty = Inr g" and
    cfg: "AGENT_CONFIG g = JObject []" and ctx: "agent_context g = JString []" and
    tls: "agent_tools g = JArray []"
    by blast
  from startup_defaults [of example_lib Map.empty] g h1
  have ident: "AGENT_ID g = ''unknown''" by blast
  have ok: "tools_ok (agent_tools g)" by (simp add: tls)
  have t1: "truthy (dict_get [(''message'', JString ''hi'')] ''message'')"
    and t2: "truthy (dict_get [(''message'', JString ''bye'')] ''message'')"
    by (simp_all add: dict_get_def dict_get_default_def)
  have e1: "echo_text example_lib g (JString ''hi'') =
              ''Echo: hi'' @ [newline] @ ''Context: '' @ [newline] @ ''Tools: ''"
    and e2: "echo_text example_lib g (JString ''bye'') =
              ''Echo: bye'' @ [newline] @ ''Context: '' @ [newline] @ ''Tools: ''"
    by (simp_all add: echo_text_def ctx tls)
  have "\<exists>r1 r2 st2.
         serve example_lib g
           [(5, 6, JObject [(''message'', JString ''hi'')]),
            (7, 8, JObject [(''message'', JString ''bye'')])] empty_store = ([Inr r1, Inr r2], st2) \<and>
         json_get r1 ''content'' = JString (''Echo: hi'' @ [newline] @ ''Context: '' @ [newline] @ ''Tools: '') \<and>
         json_get r2 ''content'' = JString (''Echo: bye'' @ [newline] @ ''Context: '' @ [newline] @ ''Tools: '')"
    by (simp add: message_endpoint_success [OF t1 example_codec_ok example_log_ok ok]
          message_endpoint_success [OF t2 example_codec_ok example_log_ok ok]
          e1 e2 agent_record_def dict_get_def dict_get_default_def)
  with h1 h2 h3 g ident cfg ctx tls show ?thesis by blast
qed

section \<open>Properties of the fact endpoints\<close>

text \<open>
  C3. As stated, for every request with a key that is not missing, the claim fails: the
  key \<open>""\<close> is present, and with the value \<open>0\<close> the request is still answered with the
  validation error, since line 54 tests the truth value of the key.
\<close>

theorem falsy_value_passes_null_fails_counterexample:
  "set_fact example_globals Map.empty backend_ok
     (JObject [(''key'', JString []), (''value'', JInt 0)]) =
   (Inr (JObject [(''error'', JString ''Missing key or value'')]), [])"
  by (simp add: set_fact_def dict_get_def dict_get_default_def error_answer_def)

text \<open>
  C3, amended. For every request (a JSON object) whose key is truthy, that is present and
  not \<open>null\<close>, \<open>false\<close>, \<open>0\<close>, \<open>""\<close> or an empty container, \<^verbatim>\<open>set_fact\<close> with the value \<open>0\<close>,
  \<open>false\<close> or \<open>""\<close> passes the validation and makes its one call to the backend, the POST
  of the agent's identity, the key and the value; with the value \<open>null\<close> or absent it
  returns \<open>{"error": "Missing key or value"}\<close> and makes no call, whatever the key.
\<close>

theorem falsy_value_passes_null_fails:
  "(truthy (dict_get kvs ''key'') \<and>
    (map_of kvs ''value'' = Some (JInt 0) \<or> map_of kvs ''value'' = Some (JBool False) \<or>
     map_of kvs ''value'' = Some (JString [])) \<longrightarrow>
    snd (set_fact g env backend (JObject kvs)) =
      [set_request g env (dict_get kvs ''key'') (dict_get kvs ''value'')]) \<and>
   (map_of kvs ''value'' = None \<or> map_of kvs ''value'' = Some JNull \<longrightarrow>
    set_fact g env backend (JObject kvs) =
      (Inr (JObject [(''error'', JString ''Missing key or value'')]), []))"
proof (intro conjI impI)
  assume a: "truthy (dict_get kvs ''key'') \<and>
    (map_of kvs ''value'' = Some (JInt 0) \<or> map_of kvs ''value'' = Some (JBool False) \<or>
     map_of kvs ''value'' = Some (JString []))"
  then have "dict_get kvs ''value'' \<noteq> JNull"
    by (auto simp: dict_get_def dict_get_default_def)
  with a show "snd (set_fact g env backend (JObject kvs)) =
      [set_request g env (dict_get kvs ''key'') (dict_get kvs ''value'')]"
    by (simp add: set_fact_def Let_def split: http_outcome.splits option.splits)
next
  assume "map_of kvs ''value'' = None \<or> map_of kvs ''value'' = Some JNull"
  then have "dict_get kvs ''value'' = JNull"
    by (auto simp: dict_get_def dict_get_default_def)
  then show "set_fact g env backend (JObject kvs) =
      (Inr (JObject [(''error'', JString ''Missing key or value'')]), [])"
    by (simp add: set_fact_def error_answer_def)
qed

theorem falsy_value_passes_null_fails_witness:
  "truthy (dict_get [(''key'', JString ''colour''), (''value'', JInt 0)] ''key'') \<and>
   map_of [(''key'', JString ''colour''), (''value'', JInt 0)] ''value'' = Some (JInt 0) \<and>
   snd (set_fact example_globals Map.empty backend_ok
          (JObject [(''key'', JString ''colour''), (''value'', JInt 0)])) =
     [set_request example_globals Map.empty (JString ''colour'') (JInt 0)] \<and>
   truthy (dict_get [(''key'', JString ''colour''), (''value'', JBool False)] ''key'') \<and>
   map_of [(''key'', JString ''colour''), (''value'', JBool False)] ''value'' = Some (JBool False) \<and>
   snd (set_fact example_globals Map.empty backend_ok
          (JObject [(''key'', JString ''colour''), (''value'', JBool False)])) =
     [set_request example_globals Map.empty (JString ''colour'') (JBool False)] \<and>
   map_of [(''key'', JString ''colour'')] ''value'' = None \<and>
   set_fact example_globals Map.empty backend_ok (JObject [(''key'', JString ''colour'')]) =
     (Inr (JObject [(''error'', JString ''Missing key or value'')]), []) \<and>
   map_of [(''key'', JString ''colour''), (''value'', JNull)] ''value'' = Some JNull \<and>
   set_fact example_globals Map.empty backend_ok
     (JObject [(''key'', JString ''colour''), (''value'', JNull)]) =
     (Inr (JObject [(''error'', JString ''Missing key or value'')]), [])"
  using
    falsy_value_passes_null_fails [of "[(''key'', JString ''colour''), (''value'', JInt 0)]"
      example_globals Map.empty backend_ok]
    falsy_value_passes_null_fails [of "[(''key'', JString ''colour''), (''value'', JBool False)]"
      example_globals Map.empty backend_ok]
    falsy_value_passes_null_fails [of "[(''key'', JString ''colour'')]"
      example_globals Map.empty backend_ok]
    falsy_value_passes_null_fails [of "[(''key'', JString ''colour''), (''value'', JNull)]"
      example_globals Map.empty backend_ok]
  by (simp add: dict_get_def dict_get_default_def)

text \<open>
  C10. A request whose key is present but falsy (the empty string, \<open>0\<close>, \<open>false\<close>) is
  answered with \<open>{"error": "Missing key or value"}\<close>, and no call to the backend is made.
\<close>

theorem falsy_key_rejected:
  assumes "map_of kvs ''key'' = Some k" and "\<not> truthy k"
  shows "set_fact g env backend (JObject kvs) =
           (Inr (JObject [(''error'', JString ''Missing key or value'')]), [])"
  using assms by (simp add: set_fact_def error_answer_def dict_get_def dict_get_default_def)

theorem falsy_key_rejected_witness:
  "map_of [(''key'', JString []), (''value'', JInt 1)] ''key'' = Some (JString []) \<and>
   \<not> truthy (JString []) \<and>
   set_fact example_globals Map.empty backend_ok (JObject [(''key'', JString []), (''value'', JInt 1)]) =
     (Inr (JObject [(''error'', JString ''Missing key or value'')]), []) \<and>
   map_of [(''key'', JInt 0), (''value'', JInt 1)] ''key'' = Some (JInt 0) \<and>
   \<not> truthy (JInt 0) \<and>
   set_fact example_globals Map.empty backend_ok (JObject [(''key'', JInt 0), (''value'', JInt 1)]) =
     (Inr (JObject [(''error'', JString ''Missing key or value'')]), []) \<and>
   map_of [(''key'', JBool False), (''value'', JInt 1)] ''key'' = Some (JBool False) \<and>
   \<not> truthy (JBool False) \<and>
   set_fact example_globals Map.empty backend_ok (JObject [(''key'', JBool False), (''value'', JInt 1)]) =
     (Inr (JObject [(''error'', JString ''Missing key or value'')]), [])"
proof -
  have a: "map_of [(''key'', JString []), (''value'', JInt 1)] ''key'' = Some (JString [])"
    and b: "map_of [(''key'', JInt 0), (''value'', JInt 1)] ''key'' = Some (JInt 0)"
    and c: "map_of [(''key'', JBool False), (''value'', JInt 1)] ''key'' = Some (JBool False)"
    by simp_all
  have fa: "\<not> truthy (JString [])" and fb: "\<not> truthy (JInt 0)" and fc: "\<not> truthy (JBool False)"
    by simp_all
  show ?thesis
    using a b c fa fb fc
      falsy_key_rejected [OF a fa, of example_globals Map.empty backend_ok]
      falsy_key_rejected [OF b fb, of example_globals Map.empty backend_ok]
      falsy_key_rejected [OF c fc, of example_globals Map.empty backend_ok]
    by simp
qed

text \<open>
  C6. As stated, for every successful response of the backend, the claim fails: a 200
  response whose JSON body is \<open>null\<close> has no \<open>value\<close> field, and \<^verbatim>\<open>get_fact\<close> answers
  \<open>{"error": ...}\<close> with the text of the AttributeError, not \<open>{"value": null}\<close>.
\<close>

theorem get_fact_returns_value_counterexample:
  "backend_null (get_request example_globals Map.empty ''colour'') =
     Responded \<lparr>status_code = 200, reason = ''OK'',
                response_url = ''http://host.docker.internal:4000/api/longterm/get/a1/colour'',
                json_result = Inr JNull\<rparr> \<and>
   get_fact example_globals Map.empty backend_null ''colour'' =
     (Inr (JObject [(''error'', JString (no_attribute_get JNull))]),
      [get_request example_globals Map.empty ''colour'']) \<and>
   get_fact example_globals Map.empty backend_null ''colour'' \<noteq>
     (Inr (JObject [(''value'', JNull)]), [get_request example_globals Map.empty ''colour''])"
  by (simp add: get_fact_def backend_null_def raise_for_status_def http_error_msg_def
        example_get_url error_answer_def)

text \<open>
  C6, amended. For every key, when the backend answers the GET with a 2xx status and a
  body that decodes to a JSON object, \<^verbatim>\<open>get_fact\<close> returns \<open>{"value": v}\<close> with \<open>v\<close> the
  \<open>value\<close> field of that object, and \<open>{"value": null}\<close> when the object has no such field.
  When the body of the 2xx response decodes to a value that is not an object, or does not
  decode, \<^verbatim>\<open>get_fact\<close> returns \<open>{"error": m}\<close> with \<open>m\<close> the text of the exception raised.
\<close>

theorem get_fact_returns_value:
  assumes "backend (get_request g env key) = Responded resp"
    and "200 \<le> status_code resp \<and> status_code resp < 300"
  shows "(json_result resp = Inr (JObject body) \<longrightarrow>
            get_fact g env backend key =
              (Inr (JObject [(''value'', (case map_of body ''value'' of None \<Rightarrow> JNull | Some v \<Rightarrow> v))]),
               [get_request g env key])) \<and>
         (json_result resp = Inr data \<and> (\<forall>fields. data \<noteq> JObject fields) \<longrightarrow>
            get_fact g env backend key =
              (Inr (JObject [(''error'', JString (no_attribute_get data))]), [get_request g env key])) \<and>
         (json_result resp = Inl failure \<longrightarrow>
            get_fact g env backend key =
              (Inr (JObject [(''error'', JString failure)]), [get_request g env key]))"
proof -
  have ok: "raise_for_status resp = None"
    using assms(2) by (intro raise_for_status_none) simp
  have "get_fact g env backend key =
          (Inr (JObject [(''value'', (case map_of body ''value'' of None \<Rightarrow> JNull | Some v \<Rightarrow> v))]),
           [get_request g env key])"
    if "json_result resp = Inr (JObject body)"
    using that ok assms(1) by (simp add: get_fact_def Let_def dict_get_def dict_get_default_def)
  moreover have "get_fact g env backend key =
          (Inr (JObject [(''error'', JString (no_attribute_get data))]), [get_request g env key])"
    if "json_result resp = Inr data" and "\<forall>fields. data \<noteq> JObject fields"
    using that ok assms(1) by (cases data) (simp_all add: get_fact_def Let_def error_answer_def)
  moreover have "get_fact g env backend key =
          (Inr (JObject [(''error'', JString failure)]), [get_request g env key])"
    if "json_result resp = Inl failure"
    using that ok assms(1) by (simp add: get_fact_def Let_def error_answer_def)
  ultimately show ?thesis by blast
qed

theorem get_fact_returns_value_witness:
  "backend_ok (get_request example_globals Map.empty ''colour'') =
     Responded \<lparr>status_code = 200, reason = ''OK'',
                response_url = ''http://host.docker.internal:4000/api/longterm/get/a1/colour'',
                json_result = Inr (JObject [(''value'', JInt 7)])\<rparr> \<and>
   get_fact example_globals Map.empty backend_ok ''colour'' =
     (Inr (JObject [(''value'', JInt 7)]), [get_request example_globals Map.empty ''colour'']) \<and>
   backend_empty (get_request example_globals Map.empty ''colour'') =
     Responded \<lparr>status_code = 200, reason = ''OK'',
                response_url = ''http://host.docker.internal:4000/api/longterm/get/a1/colour'',
                json_result = Inr (JObject [])\<rparr> \<and>
   get_fact example_globals Map.empty backend_empty ''colour'' =
     (Inr (JObject [(''value'', JNull)]), [get_request example_globals Map.empty ''colour'']) \<and>
   backend_null (get_request example_globals Map.empty ''colour'') =
     Responded \<lparr>status_code = 200, reason = ''OK'',
                response_url = ''http://host.docker.internal:4000/api/longterm/get/a1/colour'',
                json_result = Inr JNull\<rparr> \<and>
   (\<forall>fields. JNull \<noteq> JObject fields) \<and>
   get_fact example_globals Map.empty backend_null ''colour'' =
     (Inr (JObject [(''error'', JString (no_attribute_get JNull))]),
      [get_request example_globals Map.empty ''colour''])"
proof -
  let ?u = "''http://host.docker.internal:4000/api/longterm/get/a1/colour''"
  let ?r1 = "\<lparr>status_code = 200, reason = ''OK'', response_url = ?u,
              json_result = Inr (JObject [(''value'', JInt 7)])\<rparr>"
  let ?r2 = "\<lparr>status_code = 200, reason = ''OK'', response_url = ?u,
              json_result = Inr (JObject [])\<rparr>"
  let ?r3 = "\<lparr>status_code = 200, reason = ''OK'', response_url = ?u,
              json_result = Inr JNull\<rparr>"
  have a1: "backend_ok (get_request example_globals Map.empty ''colour'') = Responded ?r1"
    by (simp add: backend_ok_def example_get_url)
  have a2: "backend_empty (get_request example_globals Map.empty ''colour'') = Responded ?r2"
    by (simp add: backend_empty_def example_get_url)
  have a3: "backend_null (get_request example_globals Map.empty ''colour'') = Responded ?r3"
    by (simp add: backend_null_def example_get_url)
  have s1: "200 \<le> status_code ?r1 \<and> status_code ?r1 < 300"
    and s2: "200 \<le> status_code ?r2 \<and> status_code ?r2 < 300"
    and s3: "200 \<le> status_code ?r3 \<and> status_code ?r3 < 300" by simp_all
  have n: "\<forall>fields. JNull \<noteq> JObject fields" by simp
  have 1: "get_fact example_globals Map.empty backend_ok ''colour'' =
     (Inr (JObject [(''value'', JInt 7)]), [get_request example_globals Map.empty ''colour''])"
    using get_fact_returns_value [where backend = backend_ok and g = example_globals
        and env = Map.empty and key = "''colour''" and body = "[(''value'', JInt 7)]", OF a1 s1]
    by simp
  have 2: "get_fact example_globals Map.empty backend_empty ''colour'' =
     (Inr (JObject [(''value'', JNull)]), [get_request example_globals Map.empty ''colour''])"
    using get_fact_returns_value [where backend = backend_empty and g = example_globals
        and env = Map.empty and key = "''colour''" and body = "[]", OF a2 s2]
    by simp
  have 3: "get_fact example_globals Map.empty backend_null ''colour'' =
     (Inr (JObject [(''error'', JString (no_attribute_get JNull))]),
      [get_request example_globals Map.empty ''colour''])"
    using get_fact_returns_value [where backend = backend_null and g = example_globals
        and env = Map.empty and key = "''colour''" and data = JNull, OF a3 s3]
    by simp
  from a1 a2 a3 n 1 2 3 show ?thesis by blast
qed

text \<open>
  C4. As stated the claim fails in three places. A response with the status 304 is not
  2xx, and \<^verbatim>\<open>set_fact\<close> still answers \<open>{"status": "ok"}\<close>, because \<^verbatim>\<open>raise_for_status\<close>
  raises for the statuses 400 to 599 only. A 200 response whose body is \<open>null\<close> makes
  \<^verbatim>\<open>get_fact\<close> answer \<open>{"error": ...}\<close>, not \<open>{"value": v}\<close>. And a request body that is not a
  JSON object makes \<^verbatim>\<open>set_fact\<close> raise, before its \<^verbatim>\<open>try\<close>.
\<close>

theorem fact_endpoints_answer_in_band_counterexample:
  "backend_not_modified (set_request example_globals Map.empty (JString ''colour'') (JString ''blue'')) =
     Responded \<lparr>status_code = 304, reason = ''Not Modified'',
                response_url = ''http://host.docker.internal:4000/api/longterm/set'',
                json_result = Inl ''Expecting value: line 1 column 1 (char 0)''\<rparr> \<and>
   set_fact example_globals Map.empty backend_not_modified (JObject fact_body) =
     (Inr (JObject [(''status'', JString ''ok'')]),
      [set_request example_globals Map.empty (JString ''colour'') (JString ''blue'')]) \<and>
   backend_null (get_request example_globals Map.empty ''colour'') =
     Responded \<lparr>status_code = 200, reason = ''OK'',
                response_url = ''http://host.docker.internal:4000/api/longterm/get/a1/colour'',
                json_result = Inr JNull\<rparr> \<and>
   get_fact example_globals Map.empty backend_null ''colour'' =
     (Inr (JObject [(''error'', JString (no_attribute_get JNull))]),
      [get_request example_globals Map.empty ''colour'']) \<and>
   set_fact example_globals Map.empty backend_ok (JArray []) =
     (Inl (AttributeError (no_attribute_get (JArray []))), [])"
  by (simp add: set_fact_def get_fact_def fact_body_def dict_get_def dict_get_default_def
        backend_not_modified_def backend_null_def raise_for_status_def http_error_msg_def
        example_set_url example_get_url error_answer_def)

text \<open>
  C4, amended. On a request body that is a JSON object \<^verbatim>\<open>set_fact\<close> never raises, and
  \<^verbatim>\<open>get_fact\<close> never raises. When the call to the backend fails with an exception, each
  returns \<open>{"error": m}\<close> with \<open>m\<close> the text of that exception. When the backend responds
  with a status from 400 to 599, each returns \<open>{"error": m}\<close> with \<open>m\<close> not empty. When it
  responds with any other status (2xx included), \<^verbatim>\<open>set_fact\<close> returns exactly
  \<open>{"status": "ok"}\<close>; \<^verbatim>\<open>get_fact\<close> returns \<open>{"value": v}\<close> when the body decodes to a JSON
  object, \<open>{"error": m}\<close> with \<open>m\<close> the text of the AttributeError (not empty) when it
  decodes to another value, and
  \<open>{"error": m}\<close> with \<open>m\<close> the text of the decoding exception otherwise.
\<close>

theorem fact_endpoints_answer_in_band:
  "(\<exists>answer. fst (set_fact g env backend (JObject kvs)) = Inr answer) \<and>
   (truthy (dict_get kvs ''key'') \<and> dict_get kvs ''value'' \<noteq> JNull \<longrightarrow>
      (backend (set_request g env (dict_get kvs ''key'') (dict_get kvs ''value'')) = Failed msg \<longrightarrow>
         fst (set_fact g env backend (JObject kvs)) = Inr (JObject [(''error'', JString msg)])) \<and>
      (backend (set_request g env (dict_get kvs ''key'') (dict_get kvs ''value'')) = Responded resp \<longrightarrow>
         (if 400 \<le> status_code resp \<and> status_code resp < 600
          then \<exists>m. m \<noteq> [] \<and>
                 fst (set_fact g env backend (JObject kvs)) = Inr (JObject [(''error'', JString m)])
          else fst (set_fact g env backend (JObject kvs)) = Inr (JObject [(''status'', JString ''ok'')])))) \<and>
   (backend (get_request g env key) = Failed msg' \<longrightarrow>
      fst (get_fact g env backend key) = Inr (JObject [(''error'', JString msg')])) \<and>
   (backend (get_request g env key) = Responded resp' \<longrightarrow>
      (if 400 \<le> status_code resp' \<and> status_code resp' < 600
       then \<exists>m. m \<noteq> [] \<and> fst (get_fact g env backend key) = Inr (JObject [(''error'', JString m)])
       else (case json_result resp' of
               Inl text \<Rightarrow> fst (get_fact g env backend key) = Inr (JObject [(''error'', JString text)])
             | Inr (JObject body) \<Rightarrow>
                 fst (get_fact g env backend key) = Inr (JObject [(''value'', dict_get body ''value'')])
             | Inr other \<Rightarrow>
                 no_attribute_get other \<noteq> [] \<and>
                 fst (get_fact g env backend key) =
                   Inr (JObject [(''error'', JString (no_attribute_get other))]))))"
proof (intro conjI impI)
  show "\<exists>answer. fst (set_fact g env backend (JObject kvs)) = Inr answer"
    by (rule set_fact_never_raises)
next
  assume "truthy (dict_get kvs ''key'') \<and> dict_get kvs ''value'' \<noteq> JNull"
    and "backend (set_request g env (dict_get kvs ''key'') (dict_get kvs ''value'')) = Failed msg"
  then show "fst (set_fact g env backend (JObject kvs)) = Inr (JObject [(''error'', JString msg)])"
    by (simp add: set_fact_backend error_answer_def)
next
  assume a: "truthy (dict_get kvs ''key'') \<and> dict_get kvs ''value'' \<noteq> JNull"
    and b: "backend (set_request g env (dict_get kvs ''key'') (dict_get kvs ''value'')) = Responded resp"
  show "if 400 \<le> status_code resp \<and> status_code resp < 600
          then \<exists>m. m \<noteq> [] \<and>
                 fst (set_fact g env backend (JObject kvs)) = Inr (JObject [(''error'', JString m)])
          else fst (set_fact g env backend (JObject kvs)) = Inr (JObject [(''status'', JString ''ok'')])"
  proof (cases "400 \<le> status_code resp \<and> status_code resp < 600")
    case True
    then have "fst (set_fact g env backend (JObject kvs)) =
                 Inr (JObject [(''error'', JString (http_error_msg resp))])"
      using a b by (simp add: set_fact_backend raise_for_status_error error_answer_def)
    moreover have "http_error_msg resp \<noteq> []"
      using True by (simp add: http_error_msg_nonempty)
    ultimately show ?thesis using True by auto
  next
    case False
    then have "raise_for_status resp = None" by (intro raise_for_status_none) auto
    then show ?thesis using a b False by (simp add: set_fact_backend)
  qed
next
  assume "backend (get_request g env key) = Failed msg'"
  then show "fst (get_fact g env backend key) = Inr (JObject [(''error'', JString msg')])"
    by (simp add: get_fact_def error_answer_def)
next
  assume b: "backend (get_request g env key) = Responded resp'"
  show "if 400 \<le> status_code resp' \<and> status_code resp' < 600
       then \<exists>m. m \<noteq> [] \<and> fst (get_fact g env backend key) = Inr (JObject [(''error'', JString m)])
       else (case json_result resp' of
               Inl text \<Rightarrow> fst (get_fact g env backend key) = Inr (JObject [(''error'', JString text)])
             | Inr (JObject body) \<Rightarrow>
                 fst (get_fact g env backend key) = Inr (JObject [(''value'', dict_get body ''value'')])
             | Inr other \<Rightarrow>
                 no_attribute_get other \<noteq> [] \<and>
                 fst (get_fact g env backend key) =
                   Inr (JObject [(''error'', JString (no_attribute_get other))]))"
  proof (cases "400 \<le> status_code resp' \<and> status_code resp' < 600")
    case True
    then have "fst (get_fact g env backend key) =
                 Inr (JObject [(''error'', JString (http_error_msg resp'))])"
      using b by (simp add: get_fact_def raise_for_status_error error_answer_def)
    moreover have "http_error_msg resp' \<noteq> []"
      using True by (simp add: http_error_msg_nonempty)
    ultimately show ?thesis using True by auto
  next
    case False
    then have "raise_for_status resp' = None" by (intro raise_for_status_none) auto
    then show ?thesis using b False
      by (auto simp: get_fact_def error_answer_def no_attribute_get_nonempty
            split: sum.splits json.splits)
  qed
qed


theorem fact_endpoints_answer_in_band_witness:
  "truthy (dict_get fact_body ''key'') \<and> dict_get fact_body ''value'' \<noteq> JNull \<and>
   backend_down (set_request example_globals Map.empty (dict_get fact_body ''key'')
                   (dict_get fact_body ''value'')) = Failed ''Connection refused'' \<and>
   fst (set_fact example_globals Map.empty backend_down (JObject fact_body)) =
     Inr (JObject [(''error'', JString ''Connection refused'')]) \<and>
   backend_not_found (set_request example_globals Map.empty (dict_get fact_body ''key'')
                        (dict_get fact_body ''value'')) =
     Responded \<lparr>status_code = 404, reason = ''Not Found'',
                response_url = ''http://host.docker.internal:4000/api/longterm/set'',
                json_result = Inr (JObject [(''error'', JString ''no such fact'')])\<rparr> \<and>
   (\<exists>m. m \<noteq> [] \<and>
      fst (set_fact example_globals Map.empty backend_not_found (JObject fact_body)) =
        Inr (JObject [(''error'', JString m)])) \<and>
   backend_ok (set_request example_globals Map.empty (dict_get fact_body ''key'')
                 (dict_get fact_body ''value'')) =
     Responded \<lparr>status_code = 200, reason = ''OK'',
                response_url = ''http://host.docker.internal:4000/api/longterm/set'',
                json_result = Inr (JObject [(''value'', JInt 7)])\<rparr> \<and>
   fst (set_fact example_globals Map.empty backend_ok (JObject fact_body)) =
     Inr (JObject [(''status'', JString ''ok'')]) \<and>
   backend_down (get_request example_globals Map.empty ''colour'') = Failed ''Connection refused'' \<and>
   fst (get_fact example_globals Map.empty backend_down ''colour'') =
     Inr (JObject [(''error'', JString ''Connection refused'')]) \<and>
   backend_ok (get_request example_globals Map.empty ''colour'') =
     Responded \<lparr>status_code = 200, reason = ''OK'',
                response_url = ''http://host.docker.internal:4000/api/longterm/get/a1/colour'',
                json_result = Inr (JObject [(''value'', JInt 7)])\<rparr> \<and>
   fst (get_fact example_globals Map.empty backend_ok ''colour'') =
     Inr (JObject [(''value'', JInt 7)])"
proof -
  let ?key = "dict_get fact_body ''key''" and ?val = "dict_get fact_body ''value''"
  let ?nf = "\<lparr>status_code = 404, reason = ''Not Found'',
                response_url = ''http://host.docker.internal:4000/api/longterm/set'',
                json_result = Inr (JObject [(''error'', JString ''no such fact'')])\<rparr>"
  let ?ok = "\<lparr>status_code = 200, reason = ''OK'',
                response_url = ''http://host.docker.internal:4000/api/longterm/set'',
                json_result = Inr (JObject [(''value'', JInt 7)])\<rparr>"
  let ?okg = "\<lparr>status_code = 200, reason = ''OK'',
                response_url = ''http://host.docker.internal:4000/api/longterm/get/a1/colour'',
                json_result = Inr (JObject [(''value'', JInt 7)])\<rparr>"
  have v: "truthy ?key \<and> ?val \<noteq> JNull"
    by (simp add: fact_body_def dict_get_def dict_get_default_def)
  have d: "backend_down (set_request example_globals Map.empty ?key ?val) = Failed ''Connection refused''"
    by (simp add: backend_down_def)
  have n: "backend_not_found (set_request example_globals Map.empty ?key ?val) = Responded ?nf"
    by (simp add: backend_not_found_def example_set_url)
  have k: "backend_ok (set_request example_globals Map.empty ?key ?val) = Responded ?ok"
    by (simp add: backend_ok_def example_set_url)
  have dg: "backend_down (get_request example_globals Map.empty ''colour'') = Failed ''Connection refused''"
    by (simp add: backend_down_def)
  have kg: "backend_ok (get_request example_globals Map.empty ''colour'') = Responded ?okg"
    by (simp add: backend_ok_def example_get_url)
  have 1: "fst (set_fact example_globals Map.empty backend_down (JObject fact_body)) =
     Inr (JObject [(''error'', JString ''Connection refused'')])"
    using v d fact_endpoints_answer_in_band [where g = example_globals and env = Map.empty
        and backend = backend_down and kvs = fact_body and msg = "''Connection refused''"]
    by blast
  have 2: "\<exists>m. m \<noteq> [] \<and>
      fst (set_fact example_globals Map.empty backend_not_found (JObject fact_body)) =
        Inr (JObject [(''error'', JString m)])"
    using v n fact_endpoints_answer_in_band [where g = example_globals and env = Map.empty
        and backend = backend_not_found and kvs = fact_body and resp = ?nf]
    by simp
  have 3: "fst (set_fact example_globals Map.empty backend_ok (JObject fact_body)) =
     Inr (JObject [(''status'', JString ''ok'')])"
    using v k fact_endpoints_answer_in_band [where g = example_globals and env = Map.empty
        and backend = backend_ok and kvs = fact_body and resp = ?ok]
    by simp
  have 4: "fst (get_fact example_globals Map.empty backend_down ''colour'') =
     Inr (JObject [(''error'', JString ''Connection refused'')])"
    using dg fact_endpoints_answer_in_band [where g = example_globals and env = Map.empty
        and backend = backend_down and key = "''colour''" and msg' = "''Connection refused''"]
    by blast
  have 5: "fst (get_fact example_globals Map.empty backend_ok ''colour'') =
     Inr (JObject [(''value'', JInt 7)])"
    using kg fact_endpoints_answer_in_band [where g = example_globals and env = Map.empty
        and backend = backend_ok and key = "''colour''" and resp' = ?okg]
    by (simp add: dict_get_def dict_get_default_def)
  from v d n k dg kg 1 2 3 4 5 show ?thesis by blast
qed

end
